theory Spec2Isabelle
  imports Main
begin

section \<open>Python strings\<close>

text \<open>
  A Python \<open>str\<close> is modelled as a \<^typ>\<open>string\<close>; each \<^typ>\<open>char\<close> stands for one
  code point below 256, so \<^const>\<open>length\<close> is Python's \<open>len\<close> and \<^const>\<open>take\<close> is
  the slice \<open>s[:n]\<close>.

  \<open>isspace\<close> is the whitespace test shared by \<open>str.strip()\<close> and by the regular
  expression class \<open>\s\<close> on \<open>str\<close> patterns. Below 256 the whitespace code
  points are 9 to 13, 28 to 32, 133 and 160.
\<close>

definition isspace :: "char \<Rightarrow> bool" where
  "isspace c = (let n = (of_char c :: nat) in
     (9 \<le> n \<and> n \<le> 13) \<or> (28 \<le> n \<and> n \<le> 32) \<or> n = 133 \<or> n = 160)"

text \<open>\<open>s.replace('\n', ' ')\<close>\<close>

definition replace_newline :: "string \<Rightarrow> string" where
  "replace_newline s = map (\<lambda>c. if c = CHR 0x0A then CHR '' '' else c) s"

text \<open>
  \<open>re.sub(r'\s+', ' ', s)\<close>: scanning from the left, every maximal run of whitespace
  characters is replaced by one space; all other characters are kept.
\<close>

function re_sub_ws :: "string \<Rightarrow> string" where
  "re_sub_ws [] = []"
| "re_sub_ws (c # cs) =
     (if isspace c then CHR '' '' # re_sub_ws (dropWhile isspace cs)
      else c # re_sub_ws cs)"
  by pat_completeness auto
termination
  by (relation "measure length") (auto simp: length_dropWhile_le less_Suc_eq_le)

text \<open>\<open>s.lstrip()\<close>, \<open>s.rstrip()\<close> and \<open>s.strip()\<close> without arguments.\<close>

definition lstrip :: "string \<Rightarrow> string" where
  "lstrip s = dropWhile isspace s"

definition rstrip :: "string \<Rightarrow> string" where
  "rstrip s = rev (dropWhile isspace (rev s))"

definition strip :: "string \<Rightarrow> string" where
  "strip s = rstrip (lstrip s)"

text \<open>\<open>sep.join(xs)\<close>\<close>

fun str_join :: "string \<Rightarrow> string list \<Rightarrow> string" where
  "str_join sep [] = []"
| "str_join sep [x] = x"
| "str_join sep (x # y # ys) = x @ sep @ str_join sep (y # ys)"

text \<open>\<open>str(n)\<close> for a non-negative \<open>int\<close>: its decimal digits.\<close>

fun str_nat :: "nat \<Rightarrow> string" where
  "str_nat n =
     (if n < 10 then [char_of (48 + n)]
      else str_nat (n div 10) @ [char_of (48 + n mod 10)])"

declare str_nat.simps [simp del]

section \<open>Exceptions, console output and the database library\<close>

text \<open>
  The exceptions the program distinguishes: \<open>psycopg2.Error\<close> (with its subclasses),
  carrying the error detail, and every other subclass of \<open>Exception\<close>, carrying its
  message. \<open>SystemExit\<close> is not an \<open>Exception\<close>; no handler of the program catches
  it, so it is a third outcome of its own.
\<close>

datatype exn = PgError string | OtherException string

fun str_exn :: "exn \<Rightarrow> string" where
  "str_exn (PgError d) = d"
| "str_exn (OtherException m) = m"

datatype 'a outcome = Return 'a | Raise exn | Exit int

text \<open>
  The arguments of \<open>psycopg2.connect\<close>: either the keywords \<open>dbname\<close>, \<open>user\<close>,
  \<open>password\<close>, \<open>host\<close>, \<open>port\<close> and \<open>client_encoding\<close>, or a connection
  string and \<open>client_encoding\<close>.
\<close>

datatype connect_args =
    Keywords (kw_dbname: string) (kw_user: string) (kw_password: string)
             (kw_host: string) (kw_port: string) (kw_client_encoding: string)
  | Dsn (dsn: string) (dsn_client_encoding: string)

text \<open>
  What the program does to the outside, in order: the calls that reach the database, what
  \<open>print\<close> writes to standard output (the text, followed by a newline) and what
  \<open>traceback.print_exc()\<close> writes to standard error (the detail of the exception being
  handled).
\<close>

datatype event =
    Connect connect_args
  | Execute string
  | Fetchall
  | CloseConnection
  | Print string
  | PrintExc exn

type_synonym 'a io = "event list \<times> 'a outcome"

definition io_return :: "'a \<Rightarrow> 'a io" where
  "io_return x = ([], Return x)"

definition io_bind :: "'a io \<Rightarrow> ('a \<Rightarrow> 'b io) \<Rightarrow> 'b io" where
  "io_bind m f =
     (case m of (t, r) \<Rightarrow>
        (case r of
           Return x \<Rightarrow> (case f x of (t', r') \<Rightarrow> (t @ t', r'))
         | Raise e \<Rightarrow> (t, Raise e)
         | Exit n \<Rightarrow> (t, Exit n)))"

text \<open>A suite of statements, run in order up to the first one that does not return.\<close>

fun io_block :: "unit io list \<Rightarrow> unit io" where
  "io_block [] = io_return ()"
| "io_block (m # ms) = io_bind m (\<lambda>_. io_block ms)"

text \<open>\<open>try: body except psycopg2.Error as e: handler\<close>\<close>

definition except_psycopg2_Error :: "'a io \<Rightarrow> (exn \<Rightarrow> 'a io) \<Rightarrow> 'a io" where
  "except_psycopg2_Error body handler =
     (case body of (t, r) \<Rightarrow>
        (case r of
           Raise e \<Rightarrow>
             (case e of
                PgError d \<Rightarrow> (case handler e of (t', r') \<Rightarrow> (t @ t', r'))
              | OtherException m \<Rightarrow> (t, r))
         | Return x \<Rightarrow> (t, r)
         | Exit n \<Rightarrow> (t, r)))"

text \<open>\<open>try: body except Exception as e: handler\<close>\<close>

definition except_Exception :: "'a io \<Rightarrow> (exn \<Rightarrow> 'a io) \<Rightarrow> 'a io" where
  "except_Exception body handler =
     (case body of (t, r) \<Rightarrow>
        (case r of
           Raise e \<Rightarrow> (case handler e of (t', r') \<Rightarrow> (t @ t', r'))
         | Return x \<Rightarrow> (t, r)
         | Exit n \<Rightarrow> (t, r)))"

text \<open>
  \<open>try: body finally: cleanup\<close>: the cleanup runs whatever the body did; the
  body's outcome stands unless the cleanup itself does not return.
\<close>

definition try_finally :: "'a io \<Rightarrow> unit io \<Rightarrow> 'a io" where
  "try_finally body cleanup =
     (case body of (t, r) \<Rightarrow>
        (case cleanup of (t', r') \<Rightarrow>
           (case r' of
              Return u \<Rightarrow> (t @ t', r)
            | Raise e \<Rightarrow> (t @ t', Raise e)
            | Exit n \<Rightarrow> (t @ t', Exit n))))"

definition print :: "string \<Rightarrow> unit io" where
  "print s = ([Print s], Return ())"

definition traceback_print_exc :: "exn \<Rightarrow> unit io" where
  "traceback_print_exc e = ([PrintExc e], Return ())"

definition sys_exit :: "int \<Rightarrow> 'a io" where
  "sys_exit n = ([], Exit n)"

text \<open>
  The status the process ends with: 0 when the script runs to its end, the argument of
  \<open>sys.exit\<close>, and 1 when an exception is not caught.
\<close>

fun exit_status :: "'a outcome \<Rightarrow> int" where
  "exit_status (Return x) = 0"
| "exit_status (Raise e) = 1"
| "exit_status (Exit n) = n"

subsection \<open>psycopg2\<close>

text \<open>
  A connection object with its \<open>closed\<close> and \<open>autocommit\<close> attributes, and a cursor
  after \<open>execute\<close>: its \<open>description\<close> (the column names, or \<open>None\<close> when the
  statement has no result shape) and what \<open>fetchall()\<close> does.

  The database is a parameter: \<open>connect_response\<close> says whether \<open>psycopg2.connect\<close>
  raises, \<open>execute_response\<close> says for every statement text whether
  \<open>cursor.execute\<close> raises and which cursor state it leaves; \<open>str_value\<close> is
  Python's \<open>str\<close> on the values of the result rows.
\<close>

record pg_connection =
  closed :: bool
  autocommit :: bool

record 'v cursor =
  description :: "string list option"
  fetchall_response :: "exn + 'v list list"

record 'v world =
  connect_response :: "connect_args \<Rightarrow> exn option"
  execute_response :: "string \<Rightarrow> exn + 'v cursor"
  str_value :: "'v \<Rightarrow> string"

definition psycopg2_connect :: "'v world \<Rightarrow> connect_args \<Rightarrow> pg_connection io" where
  "psycopg2_connect w args =
     (case connect_response w args of
        Some e \<Rightarrow> ([Connect args], Raise e)
      | None \<Rightarrow> ([Connect args], Return \<lparr>closed = False, autocommit = False\<rparr>))"

text \<open>
  \<open>self.connection.cursor()\<close>: an \<open>AttributeError\<close> when the attribute is
  \<open>None\<close>, psycopg2's \<open>InterfaceError\<close> when the connection is closed.
\<close>

definition connection_cursor :: "pg_connection option \<Rightarrow> unit io" where
  "connection_cursor conn =
     (case conn of
        None \<Rightarrow> ([], Raise (OtherException
                  (''AttributeError: '' @ [CHR 0x27] @ ''NoneType'' @ [CHR 0x27] @
                   '' object has no attribute '' @ [CHR 0x27] @ ''cursor'' @ [CHR 0x27])))
      | Some c \<Rightarrow>
          if closed c then ([], Raise (PgError ''InterfaceError: connection already closed''))
          else io_return ())"

definition cursor_execute :: "'v world \<Rightarrow> string \<Rightarrow> 'v cursor io" where
  "cursor_execute w sql =
     (case execute_response w sql of
        Inl e \<Rightarrow> ([Execute sql], Raise e)
      | Inr cur \<Rightarrow> ([Execute sql], Return cur))"

definition cursor_fetchall :: "'v cursor \<Rightarrow> 'v list list io" where
  "cursor_fetchall cur =
     (case fetchall_response cur of
        Inl e \<Rightarrow> ([Fetchall], Raise e)
      | Inr rows \<Rightarrow> ([Fetchall], Return rows))"

text \<open>\<open>connection.close()\<close>; closing a closed connection is allowed.\<close>

definition connection_close :: "pg_connection \<Rightarrow> pg_connection io" where
  "connection_close c = ([CloseConnection], Return (c\<lparr>closed := True\<rparr>))"

text \<open>
  \<open>psycopg2.extensions.quote_ident\<close>: the identifier between double quotes, with
  every double quote inside it doubled.
\<close>

definition quote_ident :: "string \<Rightarrow> string" where
  "quote_ident s =
     CHR 0x22 # concat (map (\<lambda>c. if c = CHR 0x22 then [c, c] else [c]) s) @ [CHR 0x22]"

section \<open>The class QueryExecutor\<close>

definition PG_USER :: string where "PG_USER = ''postgres''"
definition PG_PASSWORD :: string where "PG_PASSWORD = ''''"
definition PG_HOST :: string where "PG_HOST = ''localhost''"
definition PG_PORT_NUMBER :: string where "PG_PORT_NUMBER = ''5432''"

text \<open>
  The class variable \<open>_SUPABASE_CONN\<close> is \<open>None\<close> when the class is created and
  nothing in the program assigns it; \<open>_initialize\<close> reads it, so it is a parameter
  there.
\<close>

definition SUPABASE_CONN_initial :: "string option" where
  "SUPABASE_CONN_initial = None"

record QueryExecutor =
  schema_name :: string
  dbname :: string
  connection :: "pg_connection option"

text \<open>\<open>_handle_sql_exception\<close>\<close>

definition handle_sql_exception :: "exn \<Rightarrow> 'a io" where
  "handle_sql_exception e =
     io_bind (traceback_print_exc e) (\<lambda>_.
     io_bind (print (CHR 0x0A # ''Exiting due to SQL error.'')) (\<lambda>_.
     sys_exit 0))"

text \<open>\<open>_initialize\<close>\<close>

definition initialize :: "'v world \<Rightarrow> string option \<Rightarrow> QueryExecutor \<Rightarrow> QueryExecutor io" where
  "initialize w SUPABASE_CONN self =
     io_bind
       (except_psycopg2_Error
          (io_bind
             (case SUPABASE_CONN of
                None \<Rightarrow>
                  psycopg2_connect w
                    (Keywords (dbname self) PG_USER PG_PASSWORD PG_HOST PG_PORT_NUMBER ''UTF8'')
              | Some s \<Rightarrow> psycopg2_connect w (Dsn s ''UTF8''))
             (\<lambda>c. io_return (self\<lparr>connection := Some (c\<lparr>autocommit := True\<rparr>)\<rparr>)))
          handle_sql_exception) (\<lambda>self.
     io_bind (print ''Successfully connected to Postgres.'') (\<lambda>_.
     io_bind
       (except_psycopg2_Error
          (io_bind (connection_cursor (connection self)) (\<lambda>_.
           io_bind
             (cursor_execute w
                (''SET search_path TO '' @ quote_ident (schema_name self) @ '', public;''))
             (\<lambda>cur. io_return ())))
          handle_sql_exception) (\<lambda>_.
     io_bind (print (''Using schema '' @ [CHR 0x27] @ schema_name self @ [CHR 0x27] @ ''.'' @
                     [CHR 0x0A])) (\<lambda>_.
     io_return self))))"

text \<open>
  \<open>__init__(self, dbname, schema_name="wine")\<close>; an argument left out is \<open>None\<close>
  here.
\<close>

definition QueryExecutor_init ::
    "'v world \<Rightarrow> string option \<Rightarrow> string \<Rightarrow> string option \<Rightarrow> QueryExecutor io" where
  "QueryExecutor_init w SUPABASE_CONN dbname_arg schema_name_arg =
     initialize w SUPABASE_CONN
       \<lparr>schema_name = (case schema_name_arg of None \<Rightarrow> ''wine'' | Some s \<Rightarrow> s),
        dbname = dbname_arg,
        connection = None\<rparr>"

text \<open>\<open>get_connection\<close>\<close>

definition get_connection :: "QueryExecutor \<Rightarrow> pg_connection option" where
  "get_connection self = connection self"

text \<open>The loop of \<open>_print_result_set\<close> over the fetched rows, returning \<open>row_count\<close>.\<close>

fun print_rows :: "('v \<Rightarrow> string) \<Rightarrow> 'v list list \<Rightarrow> nat \<Rightarrow> nat io" where
  "print_rows str [] row_count = io_return row_count"
| "print_rows str (row # results) row_count =
     io_bind (print (str_join '' | '' (map str row))) (\<lambda>_.
     print_rows str results (row_count + 1))"

text \<open>\<open>_print_result_set\<close>\<close>

definition print_result_set :: "'v world \<Rightarrow> 'v cursor \<Rightarrow> unit io" where
  "print_result_set w cur =
     io_bind (print ''Result set:'') (\<lambda>_.
     except_psycopg2_Error
       (case description cur of
          None \<Rightarrow> print ''(No results to display)''
        | Some headers \<Rightarrow>
            io_bind (print (str_join '' | '' headers)) (\<lambda>_.
            io_bind (cursor_fetchall cur) (\<lambda>results.
            io_bind (print_rows (str_value w) results 0) (\<lambda>row_count.
            print (''Number of rows: '' @ str_nat row_count)))))
       handle_sql_exception)"

text \<open>\<open>_print_execution_message\<close>\<close>

definition execution_message :: "string \<Rightarrow> string" where
  "execution_message query =
     (let msg = (if length query > 55 then take 55 query @ ''...'' else query);
          msg = strip (re_sub_ws (replace_newline msg))
      in ''Executed the query \"'' @ msg @ ''\"'')"

definition print_execution_message :: "string \<Rightarrow> unit io" where
  "print_execution_message query = print (execution_message query)"

text \<open>\<open>execute\<close>\<close>

definition execute :: "'v world \<Rightarrow> QueryExecutor \<Rightarrow> string \<Rightarrow> unit io" where
  "execute w self query =
     io_bind
       (except_psycopg2_Error
          (io_bind (connection_cursor (connection self)) (\<lambda>_.
           io_bind (cursor_execute w query) (\<lambda>cur. io_return ())))
          handle_sql_exception) (\<lambda>_.
     print_execution_message query)"

text \<open>
  \<open>execute_query(self, query, print_results=True)\<close>; an argument left out is
  \<open>None\<close> here.
\<close>

definition execute_query ::
    "'v world \<Rightarrow> QueryExecutor \<Rightarrow> string \<Rightarrow> bool option \<Rightarrow> unit io" where
  "execute_query w self query print_results_arg =
     (let print_results = (case print_results_arg of None \<Rightarrow> True | Some b \<Rightarrow> b) in
      except_psycopg2_Error
        (io_bind (connection_cursor (connection self)) (\<lambda>_.
         io_bind (cursor_execute w query) (\<lambda>cur.
         io_bind (print_execution_message query) (\<lambda>_.
         if print_results then print_result_set w cur else io_return ()))))
        handle_sql_exception)"

text \<open>
  \<open>close\<close>. A connection object is true in a condition whether it is open or closed,
  so \<open>if self.connection\<close> tests that the attribute is not \<open>None\<close>; the attribute
  keeps the connection object after the call.
\<close>

definition close :: "QueryExecutor \<Rightarrow> QueryExecutor io" where
  "close self =
     (case connection self of
        None \<Rightarrow> io_return self
      | Some c \<Rightarrow>
          io_bind (connection_close c) (\<lambda>c'.
          io_bind (print ''Database connection closed.'') (\<lambda>_.
          io_return (self\<lparr>connection := Some c'\<rparr>))))"

section \<open>The main block\<close>

definition DB_NAME :: string where "DB_NAME = ''postgres''"

definition query_7_9E :: string where
  "query_7_9E =
     CHR 0x0A # ''            SELECT s.SUPNAME, s.SUPNR'' @
     CHR 0x0A # ''            FROM supplier s'' @
     CHR 0x0A # ''            WHERE NOT EXISTS ('' @
     CHR 0x0A # ''                SELECT 1 FROM purchase_order p WHERE s.SUPNR = p.SUPNR'' @
     CHR 0x0A # ''            )'' @
     CHR 0x0A # ''        ''"

definition query_7_11E :: string where
  "query_7_11E =
     CHR 0x0A # ''            SELECT SUM(available_quantity) AS TOTAL_QUANTITY'' @
     CHR 0x0A # ''            FROM product'' @
     CHR 0x0A # ''            WHERE prodtype = '' @ [CHR 0x27] @ ''sparkling'' @ [CHR 0x27] @
     CHR 0x0A # ''        ''"

definition query_7_12E :: string where
  "query_7_12E =
     CHR 0x0A # ''            SELECT s.supnr, s.supname, COUNT(po.ponr) AS total_num_of_outstanding_orders'' @
     CHR 0x0A # ''            FROM supplier s'' @
     CHR 0x0A # ''            LEFT JOIN purchase_order po ON s.supnr = po.supnr'' @
     CHR 0x0A # ''            GROUP BY s.supnr, s.supname'' @
     CHR 0x0A # ''            ORDER BY s.supnr'' @
     CHR 0x0A # ''        ''"

definition query_7_13E :: string where
  "query_7_13E =
     CHR 0x0A # ''            SELECT s.supnr, COUNT(s.prodnr) AS num_of_product'' @
     CHR 0x0A # ''            FROM supplies s'' @
     CHR 0x0A # ''            GROUP BY s.supnr'' @
     CHR 0x0A # ''            HAVING COUNT(s.prodnr) > 5'' @
     CHR 0x0A # ''        ''"

definition query_7_14E :: string where
  "query_7_14E =
     CHR 0x0A # ''            SELECT s.supnr, s.supname, AVG(sp.deliv_period) AS average_delivery_time'' @
     CHR 0x0A # ''            FROM supplier s'' @
     CHR 0x0A # ''            JOIN supplies sp ON s.supnr = sp.supnr'' @
     CHR 0x0A # ''            GROUP BY s.supnr, s.supname'' @
     CHR 0x0A # ''            ORDER BY s.supnr'' @
     CHR 0x0A # ''        ''"

definition query_7_15E :: string where
  "query_7_15E =
     CHR 0x0A # ''            SELECT DISTINCT ponr'' @
     CHR 0x0A # ''            FROM po_line'' @
     CHR 0x0A # ''            WHERE prodnr IN ('' @
     CHR 0x0A # ''                SELECT p.prodnr'' @
     CHR 0x0A # ''                FROM product p'' @
     CHR 0x0A # ''                WHERE prodtype = '' @ [CHR 0x27] @ ''sparkling'' @ [CHR 0x27] @ '' OR prodtype = '' @ [CHR 0x27] @ ''red'' @ [CHR 0x27] @
     CHR 0x0A # ''            )'' @
     CHR 0x0A # ''        ''"

definition query_7_16E :: string where
  "query_7_16E =
     CHR 0x0A # ''            SELECT p1.prodnr'' @
     CHR 0x0A # ''            FROM product p1'' @
     CHR 0x0A # ''            WHERE 3 >= ('' @
     CHR 0x0A # ''                SELECT COUNT(p2.prodnr)'' @
     CHR 0x0A # ''                FROM product p2'' @
     CHR 0x0A # ''                WHERE p2.prodnr <= p1.prodnr'' @
     CHR 0x0A # ''            )'' @
     CHR 0x0A # ''            ORDER BY p1.prodnr ASC'' @
     CHR 0x0A # ''        ''"

definition query_7_17E :: string where
  "query_7_17E =
     CHR 0x0A # ''            SELECT prodname, available_quantity'' @
     CHR 0x0A # ''            FROM product'' @
     CHR 0x0A # ''            WHERE available_quantity >= ALL ('' @
     CHR 0x0A # ''                SELECT available_quantity'' @
     CHR 0x0A # ''                FROM product'' @
     CHR 0x0A # ''                WHERE available_quantity IS NOT NULL'' @
     CHR 0x0A # ''            )'' @
     CHR 0x0A # ''        ''"

definition query_7_18E :: string where
  "query_7_18E =
     CHR 0x0A # ''            SELECT s1.supname, s1.supnr'' @
     CHR 0x0A # ''            FROM supplier s1'' @
     CHR 0x0A # ''            WHERE NOT EXISTS('' @
     CHR 0x0A # ''                SELECT 1'' @
     CHR 0x0A # ''                FROM supplier s2'' @
     CHR 0x0A # ''                WHERE s2.supnr < s1.supnr'' @
     CHR 0x0A # ''            )'' @
     CHR 0x0A # ''        ''"

definition banner :: string where
  "banner = ''////////////////////////////////''"

text \<open>
  The statements of the \<open>try\<close> suite after the construction of \<open>qe\<close>: for each of
  the nine exercises three banner lines and the query.
\<close>

definition main_queries :: "'v world \<Rightarrow> QueryExecutor \<Rightarrow> unit io" where
  "main_queries w qe =
     io_block
       [print banner, print ''//////////// Question 7.9E  ////'', print banner,
        execute_query w qe query_7_9E None,
        print banner, print ''//////////// Question 7.11E ////'', print banner,
        execute_query w qe query_7_11E None,
        print banner, print ''//////////// Question 7.12E ////'', print banner,
        execute_query w qe query_7_12E None,
        print banner, print ''//////////// Question 7.13E ////'', print banner,
        execute_query w qe query_7_13E None,
        print banner, print ''//////////// Question 7.14E ////'', print banner,
        execute_query w qe query_7_14E None,
        print banner, print ''//////////// Question 7.15E ////'', print banner,
        execute_query w qe query_7_15E None,
        print banner, print ''//////////// Question 7.16E ////'', print banner,
        execute_query w qe query_7_16E None,
        print banner, print ''//////////// Question 7.17E ////'', print banner,
        execute_query w qe query_7_17E None,
        print banner, print ''//////////// Question 7.18E ////'', print banner,
        execute_query w qe query_7_18E None]"

text \<open>
  The \<open>try\<close> suite: the value of the variable \<open>qe\<close> when the suite is left
  (\<open>None\<close> unless the constructor returned) and what the suite did.
\<close>

definition main_try :: "'v world \<Rightarrow> QueryExecutor option \<times> unit io" where
  "main_try w =
     (case QueryExecutor_init w SUPABASE_CONN_initial DB_NAME (Some ''wine'') of (t, r) \<Rightarrow>
        (case r of
           Return qe \<Rightarrow> (Some qe, io_bind (t, Return ()) (\<lambda>_. main_queries w qe))
         | Raise e \<Rightarrow> (None, (t, Raise e))
         | Exit n \<Rightarrow> (None, (t, Exit n))))"

text \<open>
  The \<open>except Exception\<close> handler and the \<open>finally\<close> suite of the main block. A
  \<open>QueryExecutor\<close> object is true in a condition, so \<open>if qe\<close> tests that the
  variable is not \<open>None\<close>.
\<close>

definition main_cleanup :: "QueryExecutor option \<Rightarrow> unit io" where
  "main_cleanup qe =
     (case qe of
        None \<Rightarrow> io_return ()
      | Some q \<Rightarrow> io_bind (close q) (\<lambda>_. io_return ()))"

definition main_handler :: "exn \<Rightarrow> unit io" where
  "main_handler e =
     io_block [print (''An unexpected error occurred: '' @ str_exn e), traceback_print_exc e]"

text \<open>The whole script: what it does and the status the process ends with.\<close>

definition main :: "'v world \<Rightarrow> event list \<times> int" where
  "main w =
     (case main_try w of (qe, body) \<Rightarrow>
        (case try_finally (except_Exception body main_handler) (main_cleanup qe) of
           (t, r) \<Rightarrow> (t, exit_status r)))"

section \<open>Reading a run\<close>

text \<open>
  The lines written to standard output, the statements sent to the database and the
  connections opened during a run, each in order.
\<close>

fun printed :: "event list \<Rightarrow> string list" where
  "printed [] = []"
| "printed (Print s # t) = s # printed t"
| "printed (e # t) = printed t"


fun connects :: "event list \<Rightarrow> connect_args list" where
  "connects [] = []"
| "connects (Connect a # t) = a # connects t"
| "connects (e # t) = connects t"

section \<open>The normalisation of the execution message as the specification words it\<close>

text \<open>
  Truncate the query text to at most 55 characters and append \<open>...\<close> if it was
  truncated; replace newline characters with a space; collapse any run of one or more
  whitespace characters into a single space; trim leading and trailing whitespace.
  \<open>collapse_runs\<close> reads the text once and remembers whether it is inside a run.
\<close>

fun collapse_runs :: "bool \<Rightarrow> string \<Rightarrow> string" where
  "collapse_runs in_run [] = []"
| "collapse_runs in_run (c # cs) =
     (if isspace c
      then (if in_run then collapse_runs True cs else CHR '' '' # collapse_runs True cs)
      else c # collapse_runs False cs)"

definition spec_normalize :: "string \<Rightarrow> string" where
  "spec_normalize raw =
     (let truncated = (if length raw > 55 then take 55 raw @ ''...'' else raw);
          no_newlines = map (\<lambda>c. if c = CHR 0x0A then CHR '' '' else c) truncated;
          collapsed = collapse_runs False no_newlines
      in rev (dropWhile isspace (rev (dropWhile isspace collapsed))))"

section \<open>Example inputs\<close>

text \<open>
  A query of 56 characters that begins with a space and has a space as its 55th
  character, and a query of 14 characters with whitespace at both ends.
\<close>

definition long_query :: string where
  "long_query = '' '' @ replicate 53 (CHR ''a'') @ '' b''"

definition short_query :: string where
  "short_query = ''  SELECT '' @ [CHR 0x0A, CHR 0x09] @ ''1  ''"

text \<open>
  A result with the columns A and B and the rows (1, x) and (2, y), and a database on
  which every call succeeds with that result; its values are text already.
\<close>

definition example_cursor :: "string cursor" where
  "example_cursor =
     \<lparr>description = Some [''A'', ''B''],
      fetchall_response = Inr [[''1'', ''x''], [''2'', ''y'']]\<rparr>"

definition world_ok :: "string world" where
  "world_ok =
     \<lparr>connect_response = (\<lambda>args. None),
      execute_response = (\<lambda>sql. Inr example_cursor),
      str_value = (\<lambda>v. v)\<rparr>"


definition world_schema_fails :: "string world" where
  "world_schema_fails =
     world_ok\<lparr>execute_response :=
       (\<lambda>sql. Inl (PgError ''SyntaxError: zero-length delimited identifier''))\<rparr>"



text \<open>Databases on which one call raises an exception that is no \<open>psycopg2.Error\<close>.\<close>

definition world_connect_unexpected :: "string world" where
  "world_connect_unexpected =
     world_ok\<lparr>connect_response :=
       (\<lambda>args. Some (OtherException ''UnicodeDecodeError: invalid start byte''))\<rparr>"

definition world_fetch_unexpected :: "string world" where
  "world_fetch_unexpected =
     world_ok\<lparr>execute_response :=
       (\<lambda>sql. if sql = query_7_9E
              then Inr (example_cursor\<lparr>fetchall_response :=
                     Inl (OtherException ''UnicodeDecodeError: invalid start byte'')\<rparr>)
              else Inr example_cursor)\<rparr>"

text \<open>An executor as the constructor leaves it, and one that never connected.\<close>

definition connected_executor :: QueryExecutor where
  "connected_executor =
     \<lparr>schema_name = ''wine'', dbname = ''postgres'',
      connection = Some \<lparr>closed = False, autocommit = True\<rparr>\<rparr>"

definition unconnected_executor :: QueryExecutor where
  "unconnected_executor =
     \<lparr>schema_name = ''wine'', dbname = ''postgres'', connection = None\<rparr>"

section \<open>Whitespace and the execution message\<close>

lemma isspace_newline: "isspace (CHR 0x0A)"
  by (simp add: isspace_def)

lemma isspace_space: "isspace (CHR '' '')"
  by (simp add: isspace_def)

lemma not_isspace_dot: "\<not> isspace (CHR ''.'')"
  by (simp add: isspace_def)

lemma dropWhile_replace_newline:
  "dropWhile isspace (replace_newline s) = replace_newline (dropWhile isspace s)"
  by (induction s) (simp_all add: replace_newline_def isspace_newline isspace_space)

text \<open>A newline is whitespace, so replacing newlines first changes nothing.\<close>

lemma re_sub_ws_replace_newline: "re_sub_ws (replace_newline s) = re_sub_ws s"
proof (induction s rule: re_sub_ws.induct)
  case 1
  show ?case by (simp add: replace_newline_def)
next
  case (2 c cs)
  show ?case
  proof (cases "isspace c")
    case True
    have "re_sub_ws (replace_newline (c # cs)) =
          CHR '' '' # re_sub_ws (dropWhile isspace (replace_newline cs))"
      using True by (simp add: replace_newline_def isspace_space)
    also have "\<dots> = CHR '' '' # re_sub_ws (replace_newline (dropWhile isspace cs))"
      by (simp add: dropWhile_replace_newline)
    also have "\<dots> = CHR '' '' # re_sub_ws (dropWhile isspace cs)"
      using 2(1) [OF True] by simp
    finally show ?thesis using True by simp
  next
    case False
    then have "c \<noteq> CHR 0x0A" using isspace_newline by auto
    then show ?thesis using False 2(2) by (simp add: replace_newline_def)
  qed
qed

text \<open>Collapsing stops at a character that is no whitespace.\<close>

lemma re_sub_ws_append:
  "\<not> isspace y \<Longrightarrow> re_sub_ws (xs @ y # ys) = re_sub_ws xs @ re_sub_ws (y # ys)"
proof (induction xs rule: re_sub_ws.induct)
  case 1
  show ?case by simp
next
  case (2 c cs)
  show ?case
  proof (cases "isspace c")
    case True
    then show ?thesis using 2(1) [OF True 2(3)] 2(3) by (simp add: dropWhile_append3)
  next
    case False
    then show ?thesis using 2(2) [OF False 2(3)] by simp
  qed
qed

lemma strip_append_ellipsis: "strip (zs @ ''...'') = lstrip zs @ ''...''"
  by (simp add: strip_def lstrip_def rstrip_def dropWhile_append3 not_isspace_dot)

lemma re_sub_ws_truncated:
  "re_sub_ws (replace_newline (take 55 q @ ''...'')) = re_sub_ws (take 55 q) @ ''...''"
  using re_sub_ws_append [of "CHR ''.''" "take 55 q" "''..''"]
  by (simp add: re_sub_ws_replace_newline not_isspace_dot)

text \<open>The two readings of one pass over the text agree.\<close>

lemma collapse_runs_True: "collapse_runs True s = collapse_runs False (dropWhile isspace s)"
  by (induction s) simp_all

lemma re_sub_ws_collapse_runs: "re_sub_ws s = collapse_runs False s"
  by (induction s rule: re_sub_ws.induct) (simp_all add: collapse_runs_True)

text \<open>After collapsing, the only whitespace character left is the space.\<close>

lemma re_sub_ws_chars: "c \<in> set (re_sub_ws s) \<Longrightarrow> c = CHR '' '' \<or> \<not> isspace c"
proof (induction s rule: re_sub_ws.induct)
  case 1
  then show ?case by simp
next
  case (2 d ds)
  then show ?case by (cases "isspace d") auto
qed

lemma set_strip: "set (strip s) \<subseteq> set s"
proof -
  have "set (dropWhile isspace (rev (dropWhile isspace s))) \<subseteq> set (rev (dropWhile isspace s))"
    by (rule set_dropWhileD [THEN subsetI])
  also have "\<dots> \<subseteq> set s"
    using set_dropWhileD [of _ isspace s] by auto
  finally show ?thesis by (simp add: strip_def lstrip_def rstrip_def)
qed

lemma execution_message_one_line: "CHR 0x0A \<notin> set (execution_message q)"
proof -
  have "CHR 0x0A \<notin> set (strip (re_sub_ws s))" for s
    using re_sub_ws_chars [of "CHR 0x0A" s] set_strip [of "re_sub_ws s"] isspace_newline
    by auto
  then show ?thesis by (simp add: execution_message_def Let_def)
qed

lemma execution_message_neq_exiting:
  "execution_message q \<noteq> CHR 0x0A # ''Exiting due to SQL error.''"
  by (simp add: execution_message_def Let_def)

text \<open>
  C3, as the code has it. The execution message is the fixed frame around the text
  normalised as the specification words it (truncate to 55 characters and append the
  ellipsis when the text was longer, replace newlines, collapse whitespace runs, trim both
  ends). For a text of more than 55 characters the part before the ellipsis is the
  collapsed form of the first 55 characters with its leading whitespace removed: a space
  that ends this part stays in front of the ellipsis. For a text of at most 55 characters
  the message is the collapsed text trimmed at both ends, without ellipsis.
\<close>

theorem execution_message_normalized:
  "execution_message q = ''Executed the query \"'' @ spec_normalize q @ ''\"'' \<and>
   (length q > 55 \<longrightarrow>
      execution_message q =
        ''Executed the query \"'' @ lstrip (re_sub_ws (take 55 q)) @ ''...\"'') \<and>
   (length q \<le> 55 \<longrightarrow>
      execution_message q = ''Executed the query \"'' @ strip (re_sub_ws q) @ ''\"'')"
proof (intro conjI impI)
  show "execution_message q = ''Executed the query \"'' @ spec_normalize q @ ''\"''"
    by (simp add: execution_message_def spec_normalize_def Let_def strip_def lstrip_def
          rstrip_def replace_newline_def re_sub_ws_collapse_runs)
next
  assume "length q > 55"
  then show "execution_message q =
      ''Executed the query \"'' @ lstrip (re_sub_ws (take 55 q)) @ ''...\"''"
    by (simp add: execution_message_def re_sub_ws_truncated strip_append_ellipsis
          del: re_sub_ws.simps)
next
  assume "length q \<le> 55"
  then show "execution_message q = ''Executed the query \"'' @ strip (re_sub_ws q) @ ''\"''"
    by (simp add: execution_message_def re_sub_ws_replace_newline)
qed

theorem execution_message_normalized_witness:
  "length long_query > 55 \<and>
   execution_message long_query =
     ''Executed the query \"'' @ replicate 53 (CHR ''a'') @ '' ...\"'' \<and>
   length short_query \<le> 55 \<and>
   execution_message short_query = ''Executed the query \"SELECT 1\"''"
proof -
  have long: "length long_query > 55" by (simp add: long_query_def)
  have short: "length short_query \<le> 55" by (simp add: short_query_def)
  have l: "lstrip (re_sub_ws (take 55 long_query)) = replicate 53 (CHR ''a'') @ '' ''"
    by code_simp
  have s: "strip (re_sub_ws short_query) = ''SELECT 1''"
    by code_simp
  from execution_message_normalized [of long_query] long
  have "execution_message long_query =
      ''Executed the query \"'' @ lstrip (re_sub_ws (take 55 long_query)) @ ''...\"''"
    by blast
  moreover from execution_message_normalized [of short_query] short
  have "execution_message short_query =
      ''Executed the query \"'' @ strip (re_sub_ws short_query) @ ''\"''"
    by blast
  ultimately show ?thesis using long short by (simp add: l s)
qed

text \<open>
  The claim as it is worded fails on \<open>long_query\<close>: the part before the ellipsis is
  neither the collapsed form of the first 55 characters (the leading space is gone) nor
  their collapsed and trimmed form (the space before the ellipsis is kept).
\<close>

theorem execution_message_pre_ellipsis_counterexample:
  "length long_query > 55 \<and>
   execution_message long_query =
     ''Executed the query \"'' @ replicate 53 (CHR ''a'') @ '' ...\"'' \<and>
   execution_message long_query \<noteq>
     ''Executed the query \"'' @ re_sub_ws (take 55 long_query) @ ''...\"'' \<and>
   execution_message long_query \<noteq>
     ''Executed the query \"'' @ strip (re_sub_ws (take 55 long_query)) @ ''...\"''"
  by code_simp

section \<open>Running the operations\<close>

lemma io_bind_Return: "io_bind (t, Return x) f = (t @ fst (f x), snd (f x))"
  by (simp add: io_bind_def case_prod_beta)

lemma io_bind_Raise: "io_bind (t, Raise e) f = (t, Raise e)"
  by (simp add: io_bind_def)

lemma io_bind_Exit: "io_bind (t, Exit n) f = (t, Exit n)"
  by (simp add: io_bind_def)

lemmas io_bind_run = io_bind_Return io_bind_Raise io_bind_Exit

lemma except_psycopg2_Error_PgError:
  "except_psycopg2_Error (t, Raise (PgError d)) h =
     (t @ fst (h (PgError d)), snd (h (PgError d)))"
  by (simp add: except_psycopg2_Error_def case_prod_beta)

lemma except_psycopg2_Error_OtherException:
  "except_psycopg2_Error (t, Raise (OtherException m)) h = (t, Raise (OtherException m))"
  by (simp add: except_psycopg2_Error_def)

lemma except_psycopg2_Error_Return:
  "except_psycopg2_Error (t, Return x) h = (t, Return x)"
  by (simp add: except_psycopg2_Error_def)

lemma except_psycopg2_Error_Exit:
  "except_psycopg2_Error (t, Exit n) h = (t, Exit n)"
  by (simp add: except_psycopg2_Error_def)

lemmas except_psycopg2_Error_run =
  except_psycopg2_Error_PgError except_psycopg2_Error_OtherException
  except_psycopg2_Error_Return except_psycopg2_Error_Exit

lemma handle_sql_exception_run:
  "handle_sql_exception e =
     ([PrintExc e, Print (CHR 0x0A # ''Exiting due to SQL error.'')], Exit 0)"
  by (simp add: handle_sql_exception_def traceback_print_exc_def print_def sys_exit_def
        io_bind_run)

lemma connection_cursor_open:
  "\<not> closed c \<Longrightarrow> connection_cursor (Some c) = ([], Return ())"
  by (simp add: connection_cursor_def io_return_def)

lemmas run_defs =
  io_return_def print_def print_execution_message_def cursor_execute_def
  cursor_fetchall_def psycopg2_connect_def connection_close_def

subsection \<open>Rendering a result\<close>

lemma print_rows_run:
  "print_rows str rows n =
     (map (\<lambda>row. Print (str_join '' | '' (map str row))) rows, Return (n + length rows))"
  by (induction rows arbitrary: n) (simp_all add: run_defs io_bind_run)

lemma print_result_set_no_shape:
  "description cur = None \<Longrightarrow>
     print_result_set w cur =
       ([Print ''Result set:'', Print ''(No results to display)''], Return ())"
  by (simp add: print_result_set_def run_defs io_bind_run except_psycopg2_Error_run)

lemma print_result_set_rows:
  "description cur = Some headers \<Longrightarrow> fetchall_response cur = Inr rows \<Longrightarrow>
     print_result_set w cur =
       ([Print ''Result set:'', Print (str_join '' | '' headers), Fetchall] @
        map (\<lambda>row. Print (str_join '' | '' (map (str_value w) row))) rows @
        [Print (''Number of rows: '' @ str_nat (length rows))], Return ())"
  by (simp add: print_result_set_def run_defs io_bind_run except_psycopg2_Error_run
        print_rows_run)

lemma print_result_set_fetch_PgError:
  "description cur = Some headers \<Longrightarrow> fetchall_response cur = Inl (PgError d) \<Longrightarrow>
     print_result_set w cur =
       ([Print ''Result set:'', Print (str_join '' | '' headers), Fetchall,
         PrintExc (PgError d), Print (CHR 0x0A # ''Exiting due to SQL error.'')], Exit 0)"
  by (simp add: print_result_set_def run_defs io_bind_run except_psycopg2_Error_run
        handle_sql_exception_run)

lemma print_result_set_fetch_OtherException:
  "description cur = Some headers \<Longrightarrow> fetchall_response cur = Inl (OtherException m) \<Longrightarrow>
     print_result_set w cur =
       ([Print ''Result set:'', Print (str_join '' | '' headers), Fetchall],
        Raise (OtherException m))"
  by (simp add: print_result_set_def run_defs io_bind_run except_psycopg2_Error_run)

text \<open>The cases of a rendering: every cursor falls under one of the four lemmas above.\<close>

lemma print_result_set_cases:
  obtains "description cur = None"
  | headers rows where "description cur = Some headers" "fetchall_response cur = Inr rows"
  | headers d where "description cur = Some headers" "fetchall_response cur = Inl (PgError d)"
  | headers m where "description cur = Some headers"
      "fetchall_response cur = Inl (OtherException m)"
proof (cases "description cur")
  case None
  then show ?thesis using that(1) by simp
next
  case (Some headers)
  show ?thesis
  proof (cases "fetchall_response cur")
    case (Inr rows)
    then show ?thesis using Some that(2) by simp
  next
    case (Inl e)
    then show ?thesis using Some that(3,4) by (cases e) simp_all
  qed
qed

lemma print_result_set_no_PgError: "snd (print_result_set w cur) \<noteq> Raise (PgError d)"
  by (rule print_result_set_cases [of cur])
     (simp_all add: print_result_set_no_shape print_result_set_rows
        print_result_set_fetch_PgError print_result_set_fetch_OtherException)

lemma print_result_set_heading:
  "\<exists>t. fst (print_result_set w cur) = Print ''Result set:'' # t"
  by (rule print_result_set_cases [of cur])
     (simp_all add: print_result_set_no_shape print_result_set_rows
        print_result_set_fetch_PgError print_result_set_fetch_OtherException)

lemma except_psycopg2_Error_no_PgError:
  "(\<And>d. r \<noteq> Raise (PgError d)) \<Longrightarrow> except_psycopg2_Error (t, r) h = (t, r)"
  by (cases r) (auto simp: except_psycopg2_Error_def split: exn.splits)

text \<open>
  C5. With a result shape and fetched rows, the rendering prints the heading, the column
  names joined by \<open>" | "\<close>, one line for every row in the order fetched with the
  values' texts joined by \<open>" | "\<close>, and the number of rows; without a result shape it
  prints the heading and \<open>(No results to display)\<close> and nothing else.
\<close>

theorem print_result_set_rendering:
  "(description cur = Some headers \<and> fetchall_response cur = Inr rows \<longrightarrow>
      snd (print_result_set w cur) = Return () \<and>
      printed (fst (print_result_set w cur)) =
        [''Result set:'', str_join '' | '' headers] @
        map (\<lambda>row. str_join '' | '' (map (str_value w) row)) rows @
        [''Number of rows: '' @ str_nat (length rows)]) \<and>
   (description cur = None \<longrightarrow>
      snd (print_result_set w cur) = Return () \<and>
      printed (fst (print_result_set w cur)) = [''Result set:'', ''(No results to display)''])"
proof -
  have "printed (map (\<lambda>row. Print (f row)) rows @ t) = map f rows @ printed t" for f t
    by (induction rows) simp_all
  then show ?thesis
    by (simp add: print_result_set_rows print_result_set_no_shape)
qed

theorem print_result_set_rendering_witness:
  "description example_cursor = Some [''A'', ''B''] \<and>
   fetchall_response example_cursor = Inr [[''1'', ''x''], [''2'', ''y'']] \<and>
   snd (print_result_set world_ok example_cursor) = Return () \<and>
   printed (fst (print_result_set world_ok example_cursor)) =
     [''Result set:'', ''A | B'', ''1 | x'', ''2 | y'', ''Number of rows: 2''] \<and>
   description (example_cursor\<lparr>description := None\<rparr>) = None \<and>
   printed (fst (print_result_set world_ok (example_cursor\<lparr>description := None\<rparr>))) =
     [''Result set:'', ''(No results to display)'']"
proof -
  have n: "str_nat (Suc (Suc 0)) = ''2''" by code_simp
  show ?thesis
    using print_result_set_rendering
            [of example_cursor "[''A'', ''B'']" "[[''1'', ''x''], [''2'', ''y'']]" world_ok]
          print_result_set_rendering
            [of "example_cursor\<lparr>description := None\<rparr>" "[]" "[]" world_ok]
    by (simp add: example_cursor_def world_ok_def n)
qed

subsection \<open>execute and execute_query\<close>

lemma execute_success:
  "connection self = Some c \<Longrightarrow> \<not> closed c \<Longrightarrow> execute_response w q = Inr cur \<Longrightarrow>
     execute w self q = ([Execute q, Print (execution_message q)], Return ())"
  by (simp add: execute_def connection_cursor_open run_defs io_bind_run
        except_psycopg2_Error_run)

lemma execute_PgError:
  "connection self = Some c \<Longrightarrow> \<not> closed c \<Longrightarrow> execute_response w q = Inl (PgError d) \<Longrightarrow>
     execute w self q =
       ([Execute q, PrintExc (PgError d), Print (CHR 0x0A # ''Exiting due to SQL error.'')],
        Exit 0)"
  by (simp add: execute_def connection_cursor_open run_defs io_bind_run
        except_psycopg2_Error_run handle_sql_exception_run)

text \<open>
  C4. On an open connection, \<open>execute\<close> of a statement that succeeds prints the
  execution message, which is one line, and nothing else; when the statement raises a
  database error the only output is that of the fatal-error procedure, the execution
  message is not printed, and the process is told to exit.
\<close>

theorem execute_message_line:
  "connection self = Some c \<and> \<not> closed c \<longrightarrow>
     (execute_response w q = Inr cur \<longrightarrow>
        execute w self q = ([Execute q, Print (execution_message q)], Return ()) \<and>
        printed (fst (execute w self q)) = [execution_message q] \<and>
        CHR 0x0A \<notin> set (execution_message q)) \<and>
     (execute_response w q = Inl (PgError d) \<longrightarrow>
        execute w self q =
          ([Execute q, PrintExc (PgError d), Print (CHR 0x0A # ''Exiting due to SQL error.'')],
           Exit 0) \<and>
        execution_message q \<notin> set (printed (fst (execute w self q))))"
  using execution_message_neq_exiting [of q]
  by (auto simp: execute_success execute_PgError execution_message_one_line)

theorem execute_message_line_witness:
  "connection connected_executor = Some \<lparr>closed = False, autocommit = True\<rparr> \<and>
   execute_response world_ok ''SELECT 1'' = Inr example_cursor \<and>
   execute world_ok connected_executor ''SELECT 1'' =
     ([Execute ''SELECT 1'', Print ''Executed the query \"SELECT 1\"''], Return ()) \<and>
   execute_response world_schema_fails ''SELECT 1'' =
     Inl (PgError ''SyntaxError: zero-length delimited identifier'') \<and>
   execute world_schema_fails connected_executor ''SELECT 1'' =
     ([Execute ''SELECT 1'',
       PrintExc (PgError ''SyntaxError: zero-length delimited identifier''),
       Print (CHR 0x0A # ''Exiting due to SQL error.'')], Exit 0)"
proof -
  have m: "execution_message ''SELECT 1'' = ''Executed the query \"SELECT 1\"''"
    by code_simp
  show ?thesis
    using execute_message_line
            [of connected_executor "\<lparr>closed = False, autocommit = True\<rparr>" world_ok
                "''SELECT 1''" example_cursor]
          execute_message_line
            [of connected_executor "\<lparr>closed = False, autocommit = True\<rparr>"
                world_schema_fails "''SELECT 1''" _
                "''SyntaxError: zero-length delimited identifier''"]
    by (simp add: connected_executor_def world_ok_def world_schema_fails_def m)
qed

lemma execute_query_started:
  assumes "connection self = Some c" "\<not> closed c" "execute_response w q = Inr cur"
  shows "execute_query w self q flag =
           (if (case flag of None \<Rightarrow> True | Some b \<Rightarrow> b)
            then ([Execute q, Print (execution_message q)] @ fst (print_result_set w cur),
                  snd (print_result_set w cur))
            else ([Execute q, Print (execution_message q)], Return ()))"
proof -
  have "except_psycopg2_Error
          ([Execute q, Print (execution_message q)] @ fst (print_result_set w cur),
           snd (print_result_set w cur)) h =
        ([Execute q, Print (execution_message q)] @ fst (print_result_set w cur),
         snd (print_result_set w cur))" for h :: "exn \<Rightarrow> unit io"
    by (rule except_psycopg2_Error_no_PgError) (rule print_result_set_no_PgError)
  then show ?thesis using assms
    by (simp add: execute_query_def Let_def connection_cursor_open run_defs io_bind_run
          except_psycopg2_Error_run)
qed


text \<open>
  C6. When the statement of \<open>execute_query\<close> succeeds on an open connection, the
  execution message follows the statement whatever the flag is; the rendering of the result
  follows the message exactly when the flag is true, and leaving the flag out is the same
  as passing true. A rendering always begins with the heading \<open>Result set:\<close>.
\<close>

theorem execute_query_print_results:
  "connection self = Some c \<and> \<not> closed c \<and> execute_response w q = Inr cur \<longrightarrow>
     execute_query w self q (Some False) =
       ([Execute q, Print (execution_message q)], Return ()) \<and>
     execute_query w self q (Some True) =
       ([Execute q, Print (execution_message q)] @ fst (print_result_set w cur),
        snd (print_result_set w cur)) \<and>
     execute_query w self q None = execute_query w self q (Some True) \<and>
     (\<exists>t. fst (print_result_set w cur) = Print ''Result set:'' # t)"
  by (simp add: execute_query_started print_result_set_heading)

theorem execute_query_print_results_witness:
  "connection connected_executor = Some \<lparr>closed = False, autocommit = True\<rparr> \<and>
   execute_response world_ok ''SELECT 1'' = Inr example_cursor \<and>
   execute_query world_ok connected_executor ''SELECT 1'' (Some False) =
     ([Execute ''SELECT 1'', Print ''Executed the query \"SELECT 1\"''], Return ()) \<and>
   execute_query world_ok connected_executor ''SELECT 1'' None =
     ([Execute ''SELECT 1'', Print ''Executed the query \"SELECT 1\"'',
       Print ''Result set:'', Print ''A | B'', Fetchall, Print ''1 | x'', Print ''2 | y'',
       Print ''Number of rows: 2''], Return ())"
proof -
  have m: "execution_message ''SELECT 1'' = ''Executed the query \"SELECT 1\"''"
    by code_simp
  have n: "str_nat (Suc (Suc 0)) = ''2''" by code_simp
  have r: "print_result_set world_ok example_cursor =
      ([Print ''Result set:'', Print ''A | B'', Fetchall, Print ''1 | x'', Print ''2 | y'',
        Print ''Number of rows: 2''], Return ())"
    using print_result_set_rows
            [of example_cursor "[''A'', ''B'']" "[[''1'', ''x''], [''2'', ''y'']]" world_ok]
    by (simp add: example_cursor_def world_ok_def n)
  have c: "connection connected_executor = Some \<lparr>closed = False, autocommit = True\<rparr>"
    by (simp add: connected_executor_def)
  have x: "execute_response world_ok ''SELECT 1'' = Inr example_cursor"
    by (simp add: world_ok_def)
  show ?thesis
    using execute_query_print_results
            [of connected_executor "\<lparr>closed = False, autocommit = True\<rparr>" world_ok
                "''SELECT 1''" example_cursor]
    by (simp add: c x m r)
qed



section \<open>Construction and close\<close>

text \<open>
  The five ways a construction can go: the connection fails with a database error or with
  another exception, the search-path statement does, or both succeed.
\<close>

lemma initialize_connect_PgError:
  assumes "connect_response w
             (case sc of None \<Rightarrow> Keywords (dbname self) PG_USER PG_PASSWORD PG_HOST
                                   PG_PORT_NUMBER ''UTF8''
              | Some s \<Rightarrow> Dsn s ''UTF8'') = Some (PgError d)"
  shows "initialize w sc self =
           ([Connect (case sc of None \<Rightarrow> Keywords (dbname self) PG_USER PG_PASSWORD PG_HOST
                                         PG_PORT_NUMBER ''UTF8''
                      | Some s \<Rightarrow> Dsn s ''UTF8''),
             PrintExc (PgError d), Print (CHR 0x0A # ''Exiting due to SQL error.'')], Exit 0)"
  using assms
  by (cases sc)
     (simp_all add: initialize_def run_defs io_bind_run except_psycopg2_Error_run
        handle_sql_exception_run)

lemma initialize_connect_OtherException:
  assumes "connect_response w
             (case sc of None \<Rightarrow> Keywords (dbname self) PG_USER PG_PASSWORD PG_HOST
                                   PG_PORT_NUMBER ''UTF8''
              | Some s \<Rightarrow> Dsn s ''UTF8'') = Some (OtherException m)"
  shows "initialize w sc self =
           ([Connect (case sc of None \<Rightarrow> Keywords (dbname self) PG_USER PG_PASSWORD PG_HOST
                                         PG_PORT_NUMBER ''UTF8''
                      | Some s \<Rightarrow> Dsn s ''UTF8'')],
            Raise (OtherException m))"
  using assms
  by (cases sc)
     (simp_all add: initialize_def run_defs io_bind_run except_psycopg2_Error_run)

lemma initialize_connected:
  assumes "connect_response w
             (case sc of None \<Rightarrow> Keywords (dbname self) PG_USER PG_PASSWORD PG_HOST
                                   PG_PORT_NUMBER ''UTF8''
              | Some s \<Rightarrow> Dsn s ''UTF8'') = None"
  shows "initialize w sc self =
           (let stmt = ''SET search_path TO '' @ quote_ident (schema_name self) @ '', public;'';
                t = [Connect (case sc of None \<Rightarrow> Keywords (dbname self) PG_USER PG_PASSWORD
                                            PG_HOST PG_PORT_NUMBER ''UTF8''
                              | Some s \<Rightarrow> Dsn s ''UTF8''),
                     Print ''Successfully connected to Postgres.'', Execute stmt]
            in case execute_response w stmt of
                 Inl (PgError d) \<Rightarrow>
                   (t @ [PrintExc (PgError d), Print (CHR 0x0A # ''Exiting due to SQL error.'')],
                    Exit 0)
               | Inl (OtherException m) \<Rightarrow> (t, Raise (OtherException m))
               | Inr cur \<Rightarrow>
                   (t @ [Print (''Using schema '' @ [CHR 0x27] @ schema_name self @
                                [CHR 0x27] @ ''.'' @ [CHR 0x0A])],
                    Return (self\<lparr>connection := Some \<lparr>closed = False, autocommit = True\<rparr>\<rparr>)))"
  using assms
  by (cases sc)
     (simp_all add: initialize_def Let_def run_defs io_bind_run except_psycopg2_Error_run
        connection_cursor_open handle_sql_exception_run
        split: sum.splits exn.splits)

lemma initialize_cases:
  obtains d where "connect_response w
             (case sc of None \<Rightarrow> Keywords (dbname self) PG_USER PG_PASSWORD PG_HOST
                                   PG_PORT_NUMBER ''UTF8''
              | Some s \<Rightarrow> Dsn s ''UTF8'') = Some (PgError d)"
  | m where "connect_response w
             (case sc of None \<Rightarrow> Keywords (dbname self) PG_USER PG_PASSWORD PG_HOST
                                   PG_PORT_NUMBER ''UTF8''
              | Some s \<Rightarrow> Dsn s ''UTF8'') = Some (OtherException m)"
  | "connect_response w
             (case sc of None \<Rightarrow> Keywords (dbname self) PG_USER PG_PASSWORD PG_HOST
                                   PG_PORT_NUMBER ''UTF8''
              | Some s \<Rightarrow> Dsn s ''UTF8'') = None"
proof (cases "connect_response w
             (case sc of None \<Rightarrow> Keywords (dbname self) PG_USER PG_PASSWORD PG_HOST
                                   PG_PORT_NUMBER ''UTF8''
              | Some s \<Rightarrow> Dsn s ''UTF8'')")
  case None
  then show ?thesis using that(3) by simp
next
  case (Some e)
  then show ?thesis using that(1,2) by (cases e) simp_all
qed

lemma initialize_Return:
  assumes "initialize w sc self = (t, Return qe)"
  shows "t = [Connect (case sc of None \<Rightarrow> Keywords (dbname self) PG_USER PG_PASSWORD PG_HOST
                                     PG_PORT_NUMBER ''UTF8''
                       | Some s \<Rightarrow> Dsn s ''UTF8''),
              Print ''Successfully connected to Postgres.'',
              Execute (''SET search_path TO '' @ quote_ident (schema_name self) @ '', public;''),
              Print (''Using schema '' @ [CHR 0x27] @ schema_name self @ [CHR 0x27] @ ''.'' @
                     [CHR 0x0A])] \<and>
         qe = self\<lparr>connection := Some \<lparr>closed = False, autocommit = True\<rparr>\<rparr>"
proof (rule initialize_cases [where w = w and sc = sc and self = self])
  fix d
  assume "connect_response w
             (case sc of None \<Rightarrow> Keywords (dbname self) PG_USER PG_PASSWORD PG_HOST
                                   PG_PORT_NUMBER ''UTF8''
              | Some s \<Rightarrow> Dsn s ''UTF8'') = Some (PgError d)"
  from initialize_connect_PgError [OF this] assms show ?thesis by simp
next
  fix m
  assume "connect_response w
             (case sc of None \<Rightarrow> Keywords (dbname self) PG_USER PG_PASSWORD PG_HOST
                                   PG_PORT_NUMBER ''UTF8''
              | Some s \<Rightarrow> Dsn s ''UTF8'') = Some (OtherException m)"
  from initialize_connect_OtherException [OF this] assms show ?thesis by simp
next
  assume "connect_response w
             (case sc of None \<Rightarrow> Keywords (dbname self) PG_USER PG_PASSWORD PG_HOST
                                   PG_PORT_NUMBER ''UTF8''
              | Some s \<Rightarrow> Dsn s ''UTF8'') = None"
  from initialize_connected [OF this] assms show ?thesis
    by (auto simp: Let_def split: sum.splits exn.splits)
qed


lemma initialize_connects:
  "connects (fst (initialize w sc self)) =
     [case sc of None \<Rightarrow> Keywords (dbname self) PG_USER PG_PASSWORD PG_HOST
                           PG_PORT_NUMBER ''UTF8''
      | Some s \<Rightarrow> Dsn s ''UTF8'']"
proof (rule initialize_cases [where w = w and sc = sc and self = self])
  fix d
  assume "connect_response w
             (case sc of None \<Rightarrow> Keywords (dbname self) PG_USER PG_PASSWORD PG_HOST
                                   PG_PORT_NUMBER ''UTF8''
              | Some s \<Rightarrow> Dsn s ''UTF8'') = Some (PgError d)"
  from initialize_connect_PgError [OF this] show ?thesis by simp
next
  fix m
  assume "connect_response w
             (case sc of None \<Rightarrow> Keywords (dbname self) PG_USER PG_PASSWORD PG_HOST
                                   PG_PORT_NUMBER ''UTF8''
              | Some s \<Rightarrow> Dsn s ''UTF8'') = Some (OtherException m)"
  from initialize_connect_OtherException [OF this] show ?thesis by simp
next
  assume "connect_response w
             (case sc of None \<Rightarrow> Keywords (dbname self) PG_USER PG_PASSWORD PG_HOST
                                   PG_PORT_NUMBER ''UTF8''
              | Some s \<Rightarrow> Dsn s ''UTF8'') = None"
  from initialize_connected [OF this] show ?thesis
    by (auto simp: Let_def split: sum.splits exn.splits)
qed



lemma QueryExecutor_init_world_ok:
  "QueryExecutor_init world_ok SUPABASE_CONN_initial d sn =
     ([Connect (Keywords d ''postgres'' '''' ''localhost'' ''5432'' ''UTF8''),
       Print ''Successfully connected to Postgres.'',
       Execute (''SET search_path TO '' @
                quote_ident (case sn of None \<Rightarrow> ''wine'' | Some s \<Rightarrow> s) @ '', public;''),
       Print (''Using schema '' @ [CHR 0x27] @
              (case sn of None \<Rightarrow> ''wine'' | Some s \<Rightarrow> s) @ [CHR 0x27] @ ''.'' @ [CHR 0x0A])],
      Return \<lparr>schema_name = (case sn of None \<Rightarrow> ''wine'' | Some s \<Rightarrow> s), dbname = d,
              connection = Some \<lparr>closed = False, autocommit = True\<rparr>\<rparr>)"
proof -
  have "connect_response world_ok
          (case SUPABASE_CONN_initial of
             None \<Rightarrow> Keywords (dbname \<lparr>schema_name = (case sn of None \<Rightarrow> ''wine'' | Some s \<Rightarrow> s),
                                      dbname = d, connection = None\<rparr>)
                      PG_USER PG_PASSWORD PG_HOST PG_PORT_NUMBER ''UTF8''
           | Some s \<Rightarrow> Dsn s ''UTF8'') = None"
    by (simp add: world_ok_def)
  from initialize_connected [OF this] show ?thesis
    by (simp add: QueryExecutor_init_def Let_def world_ok_def SUPABASE_CONN_initial_def
          PG_USER_def PG_PASSWORD_def PG_HOST_def PG_PORT_NUMBER_def)
qed


text \<open>
  C9. Whatever the database answers, a construction opens one connection: with the
  keywords user \<open>postgres\<close>, empty password, host \<open>localhost\<close>, port \<open>5432\<close>, the
  given database name and the encoding \<open>UTF8\<close> when the alternate connection string is
  unset, which is its initial state, and with the alternate string and the encoding
  \<open>UTF8\<close> when it is set.
\<close>

theorem init_connect_arguments:
  "connects (fst (QueryExecutor_init w None d sn)) =
     [Keywords d ''postgres'' '''' ''localhost'' ''5432'' ''UTF8''] \<and>
   connects (fst (QueryExecutor_init w (Some s) d sn)) = [Dsn s ''UTF8''] \<and>
   SUPABASE_CONN_initial = None"
  by (simp add: QueryExecutor_init_def initialize_connects SUPABASE_CONN_initial_def
        PG_USER_def PG_PASSWORD_def PG_HOST_def PG_PORT_NUMBER_def)

subsection \<open>close\<close>

lemma close_connected:
  "connection self = Some c \<Longrightarrow>
     close self =
       ([CloseConnection, Print ''Database connection closed.''],
        Return (self\<lparr>connection := Some (c\<lparr>closed := True\<rparr>)\<rparr>))"
  by (simp add: close_def run_defs io_bind_run)

lemma close_unconnected: "connection self = None \<Longrightarrow> close self = ([], Return self)"
  by (simp add: close_def run_defs)

text \<open>
  C1, as the code has it. \<open>close\<close> never raises. On an executor whose connection was
  never opened it does and prints nothing. On an executor that holds a connection object,
  open or closed, it closes the connection and prints the confirmation line, and the
  executor holds the connection object afterwards as well: a second call prints the line a
  second time.
\<close>

theorem close_never_raises:
  "(connection self = None \<longrightarrow> close self = ([], Return self)) \<and>
   (connection self = Some c \<longrightarrow>
      close self =
        ([CloseConnection, Print ''Database connection closed.''],
         Return (self\<lparr>connection := Some (c\<lparr>closed := True\<rparr>)\<rparr>)) \<and>
      io_bind (close self) close =
        ([CloseConnection, Print ''Database connection closed.'',
          CloseConnection, Print ''Database connection closed.''],
         Return (self\<lparr>connection := Some (c\<lparr>closed := True\<rparr>)\<rparr>))) \<and>
   (\<exists>self'. snd (close self) = Return self')"
proof (intro conjI impI)
  show "\<exists>self'. snd (close self) = Return self'"
    by (cases "connection self") (simp_all add: close_connected close_unconnected)
qed (simp_all add: close_connected close_unconnected io_bind_run)

theorem close_never_raises_witness:
  "connection unconnected_executor = None \<and>
   close unconnected_executor = ([], Return unconnected_executor) \<and>
   connection connected_executor = Some \<lparr>closed = False, autocommit = True\<rparr> \<and>
   close connected_executor =
     ([CloseConnection, Print ''Database connection closed.''],
      Return \<lparr>schema_name = ''wine'', dbname = ''postgres'',
              connection = Some \<lparr>closed = True, autocommit = True\<rparr>\<rparr>)"
proof -
  have u: "connection unconnected_executor = None"
    by (simp add: unconnected_executor_def)
  have c: "connection connected_executor = Some \<lparr>closed = False, autocommit = True\<rparr>"
    by (simp add: connected_executor_def)
  from close_never_raises [of unconnected_executor] u
  have "close unconnected_executor = ([], Return unconnected_executor)"
    by blast
  moreover from close_never_raises
                  [of connected_executor "\<lparr>closed = False, autocommit = True\<rparr>"] c
  have "close connected_executor =
     ([CloseConnection, Print ''Database connection closed.''],
      Return (connected_executor\<lparr>connection :=
                Some (\<lparr>closed = False, autocommit = True\<rparr>\<lparr>closed := True\<rparr>)\<rparr>))"
    by blast
  ultimately show ?thesis using u c by (simp add: connected_executor_def)
qed

text \<open>
  The claim as it is worded fails: the executor that the constructor returns on
  \<open>world_ok\<close> prints the confirmation line twice when it is closed twice.
\<close>

theorem close_twice_counterexample:
  "snd (QueryExecutor_init world_ok SUPABASE_CONN_initial DB_NAME None) =
     Return connected_executor \<and>
   printed (fst (io_bind (close connected_executor) close)) =
     [''Database connection closed.'', ''Database connection closed.'']"
  by (simp add: QueryExecutor_init_world_ok connected_executor_def DB_NAME_def
        close_connected io_bind_run)

section \<open>The main block\<close>






lemma main_try_unfold:
  "main_try w =
     (case QueryExecutor_init w SUPABASE_CONN_initial DB_NAME (Some ''wine'') of
        (t, Return qe) \<Rightarrow> (Some qe, t @ fst (main_queries w qe), snd (main_queries w qe))
      | (t, Raise e) \<Rightarrow> (None, t, Raise e)
      | (t, Exit n) \<Rightarrow> (None, t, Exit n))"
  by (simp add: main_try_def io_bind_run split: prod.splits outcome.splits)


lemma main_try_constructed:
  assumes "main_try w = (Some q, body)"
  shows "connection q = Some \<lparr>closed = False, autocommit = True\<rparr>"
proof -
  obtain t0 r0 where i: "QueryExecutor_init w SUPABASE_CONN_initial DB_NAME (Some ''wine'') =
      (t0, r0)"
    by (cases "QueryExecutor_init w SUPABASE_CONN_initial DB_NAME (Some ''wine'')")
  show ?thesis
  proof (cases r0)
    case (Return q')
    with i assms have "q' = q" by (simp add: main_try_unfold)
    with i Return have "initialize w SUPABASE_CONN_initial
        \<lparr>schema_name = ''wine'', dbname = DB_NAME, connection = None\<rparr> = (t0, Return q)"
      by (simp add: QueryExecutor_init_def)
    from initialize_Return [OF this] show ?thesis by simp
  next
    case (Raise e)
    with i assms show ?thesis by (simp add: main_try_unfold)
  next
    case (Exit k)
    with i assms show ?thesis by (simp add: main_try_unfold)
  qed
qed

lemma main_try_not_constructed:
  "(fst (main_try w) = None) =
     (\<forall>q. snd (QueryExecutor_init w SUPABASE_CONN_initial DB_NAME (Some ''wine'')) \<noteq> Return q)"
  by (auto simp: main_try_unfold split: prod.splits outcome.splits)

lemma main_cleanup_run:
  assumes "main_try w = (qe, body)"
  shows "main_cleanup qe =
           (case qe of None \<Rightarrow> []
            | Some q \<Rightarrow> [CloseConnection, Print ''Database connection closed.''], Return ())"
proof (cases qe)
  case None
  then show ?thesis by (simp add: main_cleanup_def io_return_def)
next
  case (Some q)
  with assms have "connection q = Some \<lparr>closed = False, autocommit = True\<rparr>"
    using main_try_constructed by simp
  then show ?thesis using Some
    by (simp add: main_cleanup_def close_connected io_bind_run io_return_def)
qed

lemma main_handler_run:
  "main_handler e =
     ([Print (''An unexpected error occurred: '' @ str_exn e), PrintExc e], Return ())"
  by (simp add: main_handler_def print_def traceback_print_exc_def io_bind_run io_return_def)

lemma main_run:
  assumes "main_try w = (qe, t, r)"
  shows "main w =
           (t @ (case r of Raise e \<Rightarrow>
                   [Print (''An unexpected error occurred: '' @ str_exn e), PrintExc e]
                 | Return u \<Rightarrow> [] | Exit n \<Rightarrow> []) @
            (case qe of None \<Rightarrow> []
             | Some q \<Rightarrow> [CloseConnection, Print ''Database connection closed.'']),
            (case r of Exit n \<Rightarrow> n | Raise e \<Rightarrow> 0 | Return u \<Rightarrow> 0))"
  using assms main_cleanup_run [OF assms]
  by (cases r)
     (simp_all add: main_def except_Exception_def try_finally_def main_handler_run)


text \<open>
  C7. An exception raised in the \<open>try\<close> suite, by the constructor or by a query, is
  reported with the prefix and its message and with its traceback, and the status of the
  process stays 0. Whether the suite ends normally or with such an exception, the script
  then ends by closing the connection and printing the confirmation when the constructor
  had returned an executor, and by doing nothing more when it had not.
\<close>

theorem main_unexpected_error:
  "(main_try w = (qe, t, Raise e) \<longrightarrow>
      main w =
        (t @ [Print (''An unexpected error occurred: '' @ str_exn e), PrintExc e] @
         (case qe of None \<Rightarrow> []
          | Some q \<Rightarrow> [CloseConnection, Print ''Database connection closed.'']), 0)) \<and>
   (main_try w = (qe, t, Return ()) \<longrightarrow>
      main w =
        (t @ (case qe of None \<Rightarrow> []
              | Some q \<Rightarrow> [CloseConnection, Print ''Database connection closed.'']), 0)) \<and>
   (fst (main_try w) = None) =
     (\<forall>q. snd (QueryExecutor_init w SUPABASE_CONN_initial DB_NAME (Some ''wine'')) \<noteq> Return q)"
proof -
  have 1: "main w =
        (t @ [Print (''An unexpected error occurred: '' @ str_exn e), PrintExc e] @
         (case qe of None \<Rightarrow> []
          | Some q \<Rightarrow> [CloseConnection, Print ''Database connection closed.'']), 0)"
    if "main_try w = (qe, t, Raise e)"
    using main_run [OF that] by simp
  have 2: "main w =
        (t @ (case qe of None \<Rightarrow> []
              | Some q \<Rightarrow> [CloseConnection, Print ''Database connection closed.'']), 0)"
    if "main_try w = (qe, t, Return ())"
    using main_run [OF that] by simp
  from 1 2 main_try_not_constructed [of w] show ?thesis by blast
qed

theorem main_unexpected_error_witness:
  "main_try world_connect_unexpected =
     (None, [Connect (Keywords ''postgres'' ''postgres'' '''' ''localhost'' ''5432'' ''UTF8'')],
      Raise (OtherException ''UnicodeDecodeError: invalid start byte'')) \<and>
   main world_connect_unexpected =
     ([Connect (Keywords ''postgres'' ''postgres'' '''' ''localhost'' ''5432'' ''UTF8''),
       Print ''An unexpected error occurred: UnicodeDecodeError: invalid start byte'',
       PrintExc (OtherException ''UnicodeDecodeError: invalid start byte'')], 0) \<and>
   main_try world_fetch_unexpected =
     (Some connected_executor, fst (snd (main_try world_fetch_unexpected)),
      Raise (OtherException ''UnicodeDecodeError: invalid start byte'')) \<and>
   main world_fetch_unexpected =
     (fst (snd (main_try world_fetch_unexpected)) @
      [Print ''An unexpected error occurred: UnicodeDecodeError: invalid start byte'',
       PrintExc (OtherException ''UnicodeDecodeError: invalid start byte''),
       CloseConnection, Print ''Database connection closed.''], 0) \<and>
   main_try world_ok =
     (Some connected_executor, fst (snd (main_try world_ok)), Return ()) \<and>
   main world_ok =
     (fst (snd (main_try world_ok)) @
      [CloseConnection, Print ''Database connection closed.''], 0)"
proof -
  have a: "main_try world_connect_unexpected =
     (None, [Connect (Keywords ''postgres'' ''postgres'' '''' ''localhost'' ''5432'' ''UTF8'')],
      Raise (OtherException ''UnicodeDecodeError: invalid start byte''))"
    by code_simp
  have b: "main_try world_fetch_unexpected =
     (Some connected_executor, fst (snd (main_try world_fetch_unexpected)),
      Raise (OtherException ''UnicodeDecodeError: invalid start byte''))"
    by code_simp
  have c: "main_try world_ok =
     (Some connected_executor, fst (snd (main_try world_ok)), Return ())"
    by code_simp
  from main_unexpected_error
         [of world_connect_unexpected None
             "[Connect (Keywords ''postgres'' ''postgres'' '''' ''localhost'' ''5432''
                 ''UTF8'')]"
             "OtherException ''UnicodeDecodeError: invalid start byte''"] a
  have a': "main world_connect_unexpected =
     ([Connect (Keywords ''postgres'' ''postgres'' '''' ''localhost'' ''5432'' ''UTF8''),
       Print ''An unexpected error occurred: UnicodeDecodeError: invalid start byte'',
       PrintExc (OtherException ''UnicodeDecodeError: invalid start byte'')], 0)"
    by simp
  from main_unexpected_error
         [of world_fetch_unexpected "Some connected_executor"
             "fst (snd (main_try world_fetch_unexpected))"
             "OtherException ''UnicodeDecodeError: invalid start byte''"] b
  have b': "main world_fetch_unexpected =
     (fst (snd (main_try world_fetch_unexpected)) @
      [Print ''An unexpected error occurred: UnicodeDecodeError: invalid start byte'',
       PrintExc (OtherException ''UnicodeDecodeError: invalid start byte''),
       CloseConnection, Print ''Database connection closed.''], 0)"
    by simp
  from main_unexpected_error
         [of world_ok "Some connected_executor" "fst (snd (main_try world_ok))"] c
  have c': "main world_ok =
     (fst (snd (main_try world_ok)) @
      [CloseConnection, Print ''Database connection closed.''], 0)"
    by simp
  from a a' b b' c c' show ?thesis by blast
qed







end
